theory Spec2Isabelle
  imports Main
begin

section \<open>The packaging script \<^verbatim>\<open>setup.py\<close> of ESL\<close>

text \<open>
  \<^verbatim>\<open>setup.py\<close> is a straight-line script: it reads \<^verbatim>\<open>README.md\<close> into the variable
  \<^verbatim>\<open>long_description\<close>, reads \<^verbatim>\<open>LICENSE\<close> into the same variable, and calls
  \<^verbatim>\<open>setup\<close> with thirteen keyword arguments. The model below runs the script on a
  filesystem, passes the script's state explicitly, and returns either the exception that
  ended the script or the record of keyword arguments that reaches \<^verbatim>\<open>setup\<close>.
\<close>

subsection \<open>Files, exceptions and effects\<close>

text \<open>
  A file of the working directory either decodes as text or does not; a path that the
  filesystem does not map has no file. \<^verbatim>\<open>open(p, "r")\<close> raises FileNotFoundError on a
  path without a file, \<^verbatim>\<open>fh.read()\<close> raises UnicodeDecodeError on a file that does not
  decode, and reading the unbound name \<^verbatim>\<open>long_description\<close> would raise NameError.
\<close>

datatype document = Text string | Undecodable

type_synonym filesystem = "string \<Rightarrow> document option"

datatype error = FileNotFoundError string | UnicodeDecodeError string | NameError string

text \<open>
  The effects of the script, in the order they happen. \<open>ReadOk p c\<close> is a call of
  \<^verbatim>\<open>fh.read()\<close> on the handle of \<open>p\<close> that returned the whole contents \<open>c\<close>;
  \<open>Close p\<close> is the release of that handle when the \<^verbatim>\<open>with\<close> block is left.
\<close>

datatype event =
    OpenOk string
  | OpenFailed string
  | ReadOk string string
  | ReadFailed string
  | Close string
  | FindPackages
  | Setup

text \<open>
  The script's state: the effects so far and the module-level variable
  \<^verbatim>\<open>long_description\<close>, which is unbound (\<open>None\<close>) when the script starts.
\<close>

record state =
  trace :: "event list"
  var_long_description :: "string option"

definition init :: state where
  "init = \<lparr>trace = [], var_long_description = None\<rparr>"

definition emit :: "event \<Rightarrow> state \<Rightarrow> state" where
  "emit e s = s\<lparr>trace := trace s @ [e]\<rparr>"

subsection \<open>The \<^verbatim>\<open>with open(...) as fh\<close> statement\<close>

text \<open>
  \<^verbatim>\<open>with open(p, "r") as fh: body\<close>: when \<^verbatim>\<open>open\<close> raises, no handle exists and the
  body does not run. Otherwise the body runs on the handle, and the handle is closed when
  the block is left, whether the body returned or raised; an exception of the body
  propagates after the close.
\<close>

definition with_open :: "filesystem \<Rightarrow> string \<Rightarrow> (document \<Rightarrow> state \<Rightarrow> (error + unit) \<times> state) \<Rightarrow>
    state \<Rightarrow> (error + unit) \<times> state" where
  "with_open fs p body s =
     (case fs p of
        None \<Rightarrow> (Inl (FileNotFoundError p), emit (OpenFailed p) s)
      | Some fh \<Rightarrow>
          (case body fh (emit (OpenOk p) s) of
             (r, s') \<Rightarrow> (r, emit (Close p) s')))"

text \<open>\<^verbatim>\<open>fh.read()\<close> on the handle of path \<open>p\<close>.\<close>

definition fh_read :: "string \<Rightarrow> document \<Rightarrow> state \<Rightarrow> (error + string) \<times> state" where
  "fh_read p fh s =
     (case fh of
        Text c \<Rightarrow> (Inr c, emit (ReadOk p c) s)
      | Undecodable \<Rightarrow> (Inl (UnicodeDecodeError p), emit (ReadFailed p) s))"

text \<open>The body of both blocks: \<^verbatim>\<open>long_description = fh.read()\<close>.\<close>

definition assign_read :: "string \<Rightarrow> document \<Rightarrow> state \<Rightarrow> (error + unit) \<times> state" where
  "assign_read p fh s =
     (case fh_read p fh s of
        (Inl e, s') \<Rightarrow> (Inl e, s')
      | (Inr c, s') \<Rightarrow> (Inr (), s'\<lparr>var_long_description := Some c\<rparr>))"

subsection \<open>The descriptor handed to \<^verbatim>\<open>setup\<close>\<close>

record descriptor =
  name :: string
  version :: string
  author :: string
  author_email :: string
  description :: string
  long_description :: string
  long_description_content_type :: string
  url :: string
  packages :: "string list"
  install_requires :: "string list"
  license :: string
  classifiers :: "string list"
  python_requires :: string

text \<open>
  The keyword arguments of the call, given the value of the variable
  \<^verbatim>\<open>long_description\<close> and the value \<open>pk\<close> that \<^verbatim>\<open>find_packages()\<close> returned. The
  commented-out \<^verbatim>\<open>ml-datasets\<close> line of the source is no element of the list.
\<close>

definition setup_args :: "string \<Rightarrow> string list \<Rightarrow> descriptor" where
  "setup_args ld pk =
     \<lparr>name = ''esl'',
      version = ''0.0.1'',
      author = ''Arief Koesdwiady'',
      author_email = ''ariefbarkah@gmail.com'',
      description = ''This repo contains python implementation of the book Elements of Statistical Learning'',
      long_description = ld,
      long_description_content_type = ''text/markdown'',
      url = ''https://github.com/abkoesdw/The-Elements-of-Statistical-Learning-Python-Codes.git'',
      packages = pk,
      install_requires =
        [''numpy>=1.19.0'',
         ''matplotlib>=3.2.2'',
         ''scipy>=1.5.1'',
         ''tqdm>=4.47.0'',
         ''flake8>=3.8.3'',
         ''black>=19.10b0'',
         ''scikit-learn>=0.23.1'',
         ''pandas==1.1.0''],
      license = ''MIT License'',
      classifiers =
        [''Programming Language :: Python :: 3'',
         ''Operating System :: OS Independent''],
      python_requires = ''>=3''\<rparr>"

subsection \<open>The script\<close>

text \<open>
  \<^verbatim>\<open>find_packages\<close> and \<^verbatim>\<open>setup\<close> belong to setuptools; the script only calls them.
  The value returned by \<^verbatim>\<open>find_packages()\<close> is the parameter \<open>pk\<close>, and the run ends
  with the descriptor that the call of \<^verbatim>\<open>setup\<close> receives. The keyword arguments are
  evaluated in the order written, so the variable is read before \<^verbatim>\<open>find_packages\<close>
  is called.
\<close>

definition script :: "filesystem \<Rightarrow> string list \<Rightarrow> state \<Rightarrow> (error + descriptor) \<times> state" where
  "script fs pk s0 =
     (case with_open fs ''README.md'' (assign_read ''README.md'') s0 of
        (Inl e, s1) \<Rightarrow> (Inl e, s1)
      | (Inr _, s1) \<Rightarrow>
          (case with_open fs ''LICENSE'' (assign_read ''LICENSE'') s1 of
             (Inl e, s2) \<Rightarrow> (Inl e, s2)
           | (Inr _, s2) \<Rightarrow>
               (case var_long_description s2 of
                  None \<Rightarrow> (Inl (NameError ''long_description''), s2)
                | Some ld \<Rightarrow>
                    (Inr (setup_args ld pk), emit Setup (emit FindPackages s2)))))"

definition run :: "filesystem \<Rightarrow> string list \<Rightarrow> (error + descriptor) \<times> state" where
  "run fs pk = script fs pk init"

subsection \<open>Reading the trace\<close>

text \<open>The path an effect is about, if it is about a file.\<close>

fun event_path :: "event \<Rightarrow> string option" where
  "event_path (OpenOk p) = Some p"
| "event_path (OpenFailed p) = Some p"
| "event_path (ReadOk p c) = Some p"
| "event_path (ReadFailed p) = Some p"
| "event_path (Close p) = Some p"
| "event_path FindPackages = None"
| "event_path Setup = None"

definition accessed :: "event list \<Rightarrow> string list" where
  "accessed tr = List.map_filter event_path tr"

text \<open>The handles that are open after a trace: opened and not closed since.\<close>

fun handles_after :: "string list \<Rightarrow> event list \<Rightarrow> string list" where
  "handles_after hs [] = hs"
| "handles_after hs (OpenOk p # es) = handles_after (p # hs) es"
| "handles_after hs (Close p # es) = handles_after (remove1 p hs) es"
| "handles_after hs (e # es) = handles_after hs es"

definition open_handles :: "event list \<Rightarrow> string list" where
  "open_handles tr = handles_after [] tr"

text \<open>
  A trace is scoped when every successful open is followed at once by one read on that
  handle, successful or not, and then by the close of that handle, and no read or close
  happens outside such a triple.
\<close>

fun reads :: "string \<Rightarrow> event \<Rightarrow> bool" where
  "reads p (ReadOk q c) = (p = q)"
| "reads p (ReadFailed q) = (p = q)"
| "reads p e = False"

fun scoped :: "event list \<Rightarrow> bool" where
  "scoped [] = True"
| "scoped (OpenOk p # e # Close q # es) = (reads p e \<and> p = q \<and> scoped es)"
| "scoped (OpenOk p # es) = False"
| "scoped (ReadOk p c # es) = False"
| "scoped (ReadFailed p # es) = False"
| "scoped (Close p # es) = False"
| "scoped (e # es) = scoped es"

subsection \<open>Dependency specifications\<close>

text \<open>
  The script passes the entries of \<^verbatim>\<open>install_requires\<close> as plain strings and does not
  parse them. The reading of an entry as a pair of a name and a version constraint is the
  following one: the name is the text before the first comparison character, the
  constraint is the rest, made of a comparison operator and a version, all three
  non-empty.
\<close>

definition is_operator_char :: "char \<Rightarrow> bool" where
  "is_operator_char c = (c \<in> set ''<>=!~'')"

definition operators :: "string list" where
  "operators = [''>='', ''=='', ''<='', ''!='', ''~='', ''>'', ''<'', ''==='']"

definition requirement_name :: "string \<Rightarrow> string" where
  "requirement_name r = takeWhile (\<lambda>c. \<not> is_operator_char c) r"

definition requirement_constraint :: "string \<Rightarrow> string" where
  "requirement_constraint r = dropWhile (\<lambda>c. \<not> is_operator_char c) r"

definition requirement_operator :: "string \<Rightarrow> string" where
  "requirement_operator r = takeWhile is_operator_char (requirement_constraint r)"

definition requirement_version :: "string \<Rightarrow> string" where
  "requirement_version r = dropWhile is_operator_char (requirement_constraint r)"

definition parse_requirement :: "string \<Rightarrow> (string \<times> string) option" where
  "parse_requirement r =
     (if requirement_name r \<noteq> [] \<and> requirement_operator r \<in> set operators \<and>
         requirement_version r \<noteq> []
      then Some (requirement_name r, requirement_constraint r)
      else None)"

definition names_ml_datasets :: "string \<Rightarrow> bool" where
  "names_ml_datasets r = (take (length ''ml-datasets'') r = ''ml-datasets'')"

subsection \<open>Working directories used as examples\<close>

definition fs_both :: filesystem where
  "fs_both = [''README.md'' \<mapsto> Text ''# ESL'', ''LICENSE'' \<mapsto> Text ''MIT License'']"

definition fs_other_readme :: filesystem where
  "fs_other_readme =
     [''README.md'' \<mapsto> Text ''Elements of Statistical Learning'',
      ''LICENSE'' \<mapsto> Text ''Apache License'']"

definition fs_with_package :: filesystem where
  "fs_with_package =
     [''README.md'' \<mapsto> Text ''# ESL'',
      ''LICENSE'' \<mapsto> Text ''MIT License'',
      ''esl/__init__.py'' \<mapsto> Text '''']"

definition fs_no_readme :: filesystem where
  "fs_no_readme = [''LICENSE'' \<mapsto> Text ''MIT License'']"

definition fs_no_license :: filesystem where
  "fs_no_license = [''README.md'' \<mapsto> Text ''# ESL'']"

definition fs_empty_license :: filesystem where
  "fs_empty_license = [''README.md'' \<mapsto> Text ''# ESL'', ''LICENSE'' \<mapsto> Text '''']"

definition fs_undecodable_license :: filesystem where
  "fs_undecodable_license = [''README.md'' \<mapsto> Text ''# ESL'', ''LICENSE'' \<mapsto> Undecodable]"



section \<open>Properties\<close>

subsection \<open>The two blocks\<close>

lemma with_open_absent:
  "fs p = None \<Longrightarrow>
   with_open fs p (assign_read p) s = (Inl (FileNotFoundError p), emit (OpenFailed p) s)"
  by (simp add: with_open_def)

lemma with_open_text:
  "fs p = Some (Text c) \<Longrightarrow>
   with_open fs p (assign_read p) s =
     (Inr (), emit (Close p) ((emit (ReadOk p c) (emit (OpenOk p) s))\<lparr>var_long_description := Some c\<rparr>))"
  by (simp add: with_open_def assign_read_def fh_read_def)

lemma with_open_undecodable:
  "fs p = Some Undecodable \<Longrightarrow>
   with_open fs p (assign_read p) s =
     (Inl (UnicodeDecodeError p), emit (Close p) (emit (ReadFailed p) (emit (OpenOk p) s)))"
  by (simp add: with_open_def assign_read_def fh_read_def)


subsection \<open>The five ways a run can go\<close>

lemma run_both_text:
  assumes "fs ''README.md'' = Some (Text r)" and "fs ''LICENSE'' = Some (Text l)"
  shows "run fs pk =
    (Inr (setup_args l pk),
     \<lparr>trace = [OpenOk ''README.md'', ReadOk ''README.md'' r, Close ''README.md'',
               OpenOk ''LICENSE'', ReadOk ''LICENSE'' l, Close ''LICENSE'',
               FindPackages, Setup],
      var_long_description = Some l\<rparr>)"
  using assms
  by (simp add: run_def script_def with_open_text emit_def init_def)

lemma run_readme_absent:
  assumes "fs ''README.md'' = None"
  shows "run fs pk =
    (Inl (FileNotFoundError ''README.md''),
     \<lparr>trace = [OpenFailed ''README.md''], var_long_description = None\<rparr>)"
  using assms
  by (simp add: run_def script_def with_open_absent emit_def init_def)

lemma run_license_absent:
  assumes "fs ''README.md'' = Some (Text r)" and "fs ''LICENSE'' = None"
  shows "run fs pk =
    (Inl (FileNotFoundError ''LICENSE''),
     \<lparr>trace = [OpenOk ''README.md'', ReadOk ''README.md'' r, Close ''README.md'',
               OpenFailed ''LICENSE''],
      var_long_description = Some r\<rparr>)"
  using assms
  by (simp add: run_def script_def with_open_text with_open_absent emit_def init_def)

lemma run_readme_undecodable:
  assumes "fs ''README.md'' = Some Undecodable"
  shows "run fs pk =
    (Inl (UnicodeDecodeError ''README.md''),
     \<lparr>trace = [OpenOk ''README.md'', ReadFailed ''README.md'', Close ''README.md''],
      var_long_description = None\<rparr>)"
  using assms
  by (simp add: run_def script_def with_open_undecodable emit_def init_def)

lemma run_license_undecodable:
  assumes "fs ''README.md'' = Some (Text r)" and "fs ''LICENSE'' = Some Undecodable"
  shows "run fs pk =
    (Inl (UnicodeDecodeError ''LICENSE''),
     \<lparr>trace = [OpenOk ''README.md'', ReadOk ''README.md'' r, Close ''README.md'',
               OpenOk ''LICENSE'', ReadFailed ''LICENSE'', Close ''LICENSE''],
      var_long_description = Some r\<rparr>)"
  using assms
  by (simp add: run_def script_def with_open_text with_open_undecodable emit_def init_def)

lemma run_cases:
  obtains
    (readme_absent) "fs ''README.md'' = None"
  | (readme_undecodable) "fs ''README.md'' = Some Undecodable"
  | (license_absent) r where "fs ''README.md'' = Some (Text r)" "fs ''LICENSE'' = None"
  | (license_undecodable) r where
      "fs ''README.md'' = Some (Text r)" "fs ''LICENSE'' = Some Undecodable"
  | (both_text) r l where
      "fs ''README.md'' = Some (Text r)" "fs ''LICENSE'' = Some (Text l)"
proof (cases "fs ''README.md''")
  case None
  then show ?thesis by (rule readme_absent)
next
  case (Some a)
  note readme = this
  show ?thesis
  proof (cases a)
    case Undecodable
    with readme show ?thesis by (simp add: readme_undecodable)
  next
    case (Text r)
    with readme have r: "fs ''README.md'' = Some (Text r)" by simp
    show ?thesis
    proof (cases "fs ''LICENSE''")
      case None
      with r show ?thesis by (rule license_absent)
    next
      case (Some b)
      then show ?thesis using r license_undecodable both_text by (cases b) simp_all
    qed
  qed
qed

text \<open>A run that reaches \<^verbatim>\<open>setup\<close> read text from both paths.\<close>

lemma run_Inr:
  assumes "fst (run fs pk) = Inr d"
  obtains r l where "fs ''README.md'' = Some (Text r)" and "fs ''LICENSE'' = Some (Text l)"
    and "d = setup_args l pk"
proof (cases fs rule: run_cases)
  case readme_absent
  with assms show ?thesis by (simp add: run_readme_absent)
next
  case readme_undecodable
  with assms show ?thesis by (simp add: run_readme_undecodable)
next
  case (license_absent r)
  with assms show ?thesis by (simp add: run_license_absent)
next
  case (license_undecodable r)
  with assms show ?thesis by (simp add: run_license_undecodable)
next
  case (both_text r l)
  with assms that show ?thesis by (simp add: run_both_text)
qed


subsection \<open>The example directories\<close>

lemma fs_both_files:
  "fs_both ''README.md'' = Some (Text ''# ESL'')"
  "fs_both ''LICENSE'' = Some (Text ''MIT License'')"
  by (simp_all add: fs_both_def)

lemma run_fs_both:
  "fst (run fs_both pk) = Inr (setup_args ''MIT License'' pk)"
  by (simp add: run_both_text [OF fs_both_files])

lemma fs_other_readme_files:
  "fs_other_readme ''README.md'' = Some (Text ''Elements of Statistical Learning'')"
  "fs_other_readme ''LICENSE'' = Some (Text ''Apache License'')"
  by (simp_all add: fs_other_readme_def)

lemma run_fs_other_readme:
  "fst (run fs_other_readme pk) = Inr (setup_args ''Apache License'' pk)"
  by (simp add: run_both_text [OF fs_other_readme_files])

lemma fs_with_package_files:
  "fs_with_package ''README.md'' = Some (Text ''# ESL'')"
  "fs_with_package ''LICENSE'' = Some (Text ''MIT License'')"
  "fs_with_package ''esl/__init__.py'' = Some (Text [])"
  by (simp_all add: fs_with_package_def)

lemma fs_no_readme_files:
  "fs_no_readme ''README.md'' = None"
  "fs_no_readme ''LICENSE'' = Some (Text ''MIT License'')"
  by (simp_all add: fs_no_readme_def)

lemma fs_no_license_files:
  "fs_no_license ''README.md'' = Some (Text ''# ESL'')"
  "fs_no_license ''LICENSE'' = None"
  by (simp_all add: fs_no_license_def)

lemma fs_empty_license_files:
  "fs_empty_license ''README.md'' = Some (Text ''# ESL'')"
  "fs_empty_license ''LICENSE'' = Some (Text [])"
  by (simp_all add: fs_empty_license_def)

lemma fs_undecodable_license_files:
  "fs_undecodable_license ''README.md'' = Some (Text ''# ESL'')"
  "fs_undecodable_license ''LICENSE'' = Some Undecodable"
  by (simp_all add: fs_undecodable_license_def)





subsection \<open>The dependency list\<close>

lemma install_requires_setup_args:
  "install_requires (setup_args ld pk) =
     [''numpy>=1.19.0'', ''matplotlib>=3.2.2'', ''scipy>=1.5.1'', ''tqdm>=4.47.0'',
      ''flake8>=3.8.3'', ''black>=19.10b0'', ''scikit-learn>=0.23.1'', ''pandas==1.1.0'']"
  by (simp add: setup_args_def)

lemmas requirement_defs =
  parse_requirement_def requirement_name_def requirement_constraint_def
  requirement_operator_def requirement_version_def is_operator_char_def operators_def

lemma parse_numpy: "parse_requirement ''numpy>=1.19.0'' = Some (''numpy'', ''>=1.19.0'')"
  by (simp add: requirement_defs)

lemma parse_matplotlib:
  "parse_requirement ''matplotlib>=3.2.2'' = Some (''matplotlib'', ''>=3.2.2'')"
  by (simp add: requirement_defs)

lemma parse_scipy: "parse_requirement ''scipy>=1.5.1'' = Some (''scipy'', ''>=1.5.1'')"
  by (simp add: requirement_defs)

lemma parse_tqdm: "parse_requirement ''tqdm>=4.47.0'' = Some (''tqdm'', ''>=4.47.0'')"
  by (simp add: requirement_defs)

lemma parse_flake8: "parse_requirement ''flake8>=3.8.3'' = Some (''flake8'', ''>=3.8.3'')"
  by (simp add: requirement_defs)

lemma parse_black: "parse_requirement ''black>=19.10b0'' = Some (''black'', ''>=19.10b0'')"
  by (simp add: requirement_defs)

lemma parse_scikit_learn:
  "parse_requirement ''scikit-learn>=0.23.1'' = Some (''scikit-learn'', ''>=0.23.1'')"
  by (simp add: requirement_defs)

lemma parse_pandas: "parse_requirement ''pandas==1.1.0'' = Some (''pandas'', ''==1.1.0'')"
  by (simp add: requirement_defs)

lemmas parse_entries =
  parse_numpy parse_matplotlib parse_scipy parse_tqdm parse_flake8 parse_black
  parse_scikit_learn parse_pandas

lemma operator_entries:
  "requirement_operator ''numpy>=1.19.0'' = ''>=''"
  "requirement_operator ''matplotlib>=3.2.2'' = ''>=''"
  "requirement_operator ''scipy>=1.5.1'' = ''>=''"
  "requirement_operator ''tqdm>=4.47.0'' = ''>=''"
  "requirement_operator ''flake8>=3.8.3'' = ''>=''"
  "requirement_operator ''black>=19.10b0'' = ''>=''"
  "requirement_operator ''scikit-learn>=0.23.1'' = ''>=''"
  "requirement_operator ''pandas==1.1.0'' = ''==''"
  by (simp_all add: requirement_operator_def requirement_constraint_def is_operator_char_def)

lemma ml_datasets_entries:
  "\<not> names_ml_datasets ''numpy>=1.19.0''"
  "\<not> names_ml_datasets ''matplotlib>=3.2.2''"
  "\<not> names_ml_datasets ''scipy>=1.5.1''"
  "\<not> names_ml_datasets ''tqdm>=4.47.0''"
  "\<not> names_ml_datasets ''flake8>=3.8.3''"
  "\<not> names_ml_datasets ''black>=19.10b0''"
  "\<not> names_ml_datasets ''scikit-learn>=0.23.1''"
  "\<not> names_ml_datasets ''pandas==1.1.0''"
  by (simp_all add: names_ml_datasets_def)

section \<open>The claims\<close>

text \<open>
  C1. When both \<^verbatim>\<open>README.md\<close> and \<^verbatim>\<open>LICENSE\<close> can be read, the run reaches \<^verbatim>\<open>setup\<close>
  and the \<^verbatim>\<open>long_description\<close> it passes is the contents of \<^verbatim>\<open>LICENSE\<close>, exactly:
  the value assigned from the readme is overwritten, so the result does not mention the
  readme's contents \<open>r\<close>, and the variable holds the license text at the end.
\<close>

theorem long_description_is_license:
  assumes "fs ''README.md'' = Some (Text r)" and "fs ''LICENSE'' = Some (Text l)"
  shows "\<exists>d. fst (run fs pk) = Inr d \<and> long_description d = l \<and>
    var_long_description (snd (run fs pk)) = Some l"
  using assms by (simp add: run_both_text setup_args_def)

theorem long_description_is_license_witness:
  "fs_other_readme ''README.md'' = Some (Text ''Elements of Statistical Learning'') \<and>
   fs_other_readme ''LICENSE'' = Some (Text ''Apache License'') \<and>
   (\<exists>d. fst (run fs_other_readme [''esl'']) = Inr d \<and> long_description d = ''Apache License'' \<and>
     var_long_description (snd (run fs_other_readme [''esl''])) = Some ''Apache License'')"
  using long_description_is_license [OF fs_other_readme_files, of "[''esl'']"]
    fs_other_readme_files
  by simp

text \<open>
  C2. The claim as written fails: an empty \<^verbatim>\<open>LICENSE\<close> is readable, and the run then
  passes the empty string as \<^verbatim>\<open>long_description\<close>.
\<close>

theorem empty_license_counterexample:
  "fs_empty_license ''README.md'' = Some (Text ''# ESL'') \<and>
   fs_empty_license ''LICENSE'' = Some (Text []) \<and>
   fst (run fs_empty_license [''esl'']) = Inr (setup_args [] [''esl'']) \<and>
   long_description (setup_args [] [''esl'']) = []"
  by (simp add: fs_empty_license_files run_both_text [OF fs_empty_license_files] setup_args_def)

text \<open>
  C2, amended. When both \<^verbatim>\<open>README.md\<close> and \<^verbatim>\<open>LICENSE\<close> can be read, the run reaches
  \<^verbatim>\<open>setup\<close>, and the \<^verbatim>\<open>long_description\<close> it passes is non-empty exactly when
  \<^verbatim>\<open>LICENSE\<close> is non-empty.
\<close>

theorem construction_succeeds:
  assumes "fs ''README.md'' = Some (Text r)" and "fs ''LICENSE'' = Some (Text l)"
  shows "\<exists>d. fst (run fs pk) = Inr d \<and> (long_description d \<noteq> [] \<longleftrightarrow> l \<noteq> [])"
  using assms by (simp add: run_both_text setup_args_def)

theorem construction_succeeds_witness:
  "fs_both ''README.md'' = Some (Text ''# ESL'') \<and>
   fs_both ''LICENSE'' = Some (Text ''MIT License'') \<and>
   (\<exists>d. fst (run fs_both []) = Inr d \<and> long_description d \<noteq> [])"
  using construction_succeeds [OF fs_both_files, of "[]"] fs_both_files
  by simp

text \<open>
  C3. When \<^verbatim>\<open>README.md\<close> is absent, the run ends with FileNotFoundError for
  \<^verbatim>\<open>README.md\<close>, and the failed open is its only effect: \<^verbatim>\<open>LICENSE\<close> is neither
  opened nor read, whatever it holds.
\<close>

theorem readme_absent_fails_first:
  assumes "fs ''README.md'' = None"
  shows "fst (run fs pk) = Inl (FileNotFoundError ''README.md'') \<and>
    trace (snd (run fs pk)) = [OpenFailed ''README.md''] \<and>
    ''LICENSE'' \<notin> set (accessed (trace (snd (run fs pk))))"
  using assms by (simp add: run_readme_absent accessed_def)

theorem readme_absent_fails_first_witness:
  "fs_no_readme ''README.md'' = None \<and>
   fs_no_readme ''LICENSE'' = Some (Text ''MIT License'') \<and>
   fst (run fs_no_readme [''esl'']) = Inl (FileNotFoundError ''README.md'') \<and>
   trace (snd (run fs_no_readme [''esl''])) = [OpenFailed ''README.md''] \<and>
   ''LICENSE'' \<notin> set (accessed (trace (snd (run fs_no_readme [''esl'']))))"
  using readme_absent_fails_first [of fs_no_readme "[''esl'']"] fs_no_readme_files
  by blast

text \<open>
  C4. When \<^verbatim>\<open>README.md\<close> holds the text \<open>r\<close> and \<^verbatim>\<open>LICENSE\<close> is absent, the run ends
  with FileNotFoundError for \<^verbatim>\<open>LICENSE\<close>, after the readme was opened, read whole and
  closed: the failed open is the last effect, and the variable holds \<open>r\<close>.
\<close>

theorem license_absent_fails_after_readme:
  assumes "fs ''README.md'' = Some (Text r)" and "fs ''LICENSE'' = None"
  shows "fst (run fs pk) = Inl (FileNotFoundError ''LICENSE'') \<and>
    trace (snd (run fs pk)) =
      [OpenOk ''README.md'', ReadOk ''README.md'' r, Close ''README.md'',
       OpenFailed ''LICENSE''] \<and>
    var_long_description (snd (run fs pk)) = Some r"
  using assms by (simp add: run_license_absent)

theorem license_absent_fails_after_readme_witness:
  "fs_no_license ''README.md'' = Some (Text ''# ESL'') \<and>
   fs_no_license ''LICENSE'' = None \<and>
   fst (run fs_no_license []) = Inl (FileNotFoundError ''LICENSE'') \<and>
   trace (snd (run fs_no_license [])) =
     [OpenOk ''README.md'', ReadOk ''README.md'' ''# ESL'', Close ''README.md'',
      OpenFailed ''LICENSE''] \<and>
   var_long_description (snd (run fs_no_license [])) = Some ''# ESL''"
  using license_absent_fails_after_readme [OF fs_no_license_files, of "[]"] fs_no_license_files
  by simp

text \<open>
  C5. The \<^verbatim>\<open>install_requires\<close> that reaches \<^verbatim>\<open>setup\<close> is a list whose entries each
  read as a pair of a name and a version constraint, and the pairs come in the order in
  which the script declares the entries.
\<close>

theorem install_requires_parse_in_order:
  assumes "fst (run fs pk) = Inr d"
  shows "map parse_requirement (install_requires d) =
    [Some (''numpy'', ''>=1.19.0''),
     Some (''matplotlib'', ''>=3.2.2''),
     Some (''scipy'', ''>=1.5.1''),
     Some (''tqdm'', ''>=4.47.0''),
     Some (''flake8'', ''>=3.8.3''),
     Some (''black'', ''>=19.10b0''),
     Some (''scikit-learn'', ''>=0.23.1''),
     Some (''pandas'', ''==1.1.0'')]"
proof -
  from assms obtain l where "d = setup_args l pk"
    by (rule run_Inr)
  then show ?thesis
    by (simp only: install_requires_setup_args list.map parse_entries)
qed

theorem install_requires_parse_in_order_witness:
  "fst (run fs_both [''esl'']) = Inr (setup_args ''MIT License'' [''esl'']) \<and>
   map parse_requirement (install_requires (setup_args ''MIT License'' [''esl''])) =
    [Some (''numpy'', ''>=1.19.0''),
     Some (''matplotlib'', ''>=3.2.2''),
     Some (''scipy'', ''>=1.5.1''),
     Some (''tqdm'', ''>=4.47.0''),
     Some (''flake8'', ''>=3.8.3''),
     Some (''black'', ''>=19.10b0''),
     Some (''scikit-learn'', ''>=0.23.1''),
     Some (''pandas'', ''==1.1.0'')]"
  using install_requires_parse_in_order [OF run_fs_both] run_fs_both
  by blast

text \<open>
  C7. On every run, whether it reaches \<^verbatim>\<open>setup\<close> or ends in an exception of an open
  or of a read, the trace is scoped and no handle is open at the end: each handle that
  was acquired is closed right after its one read, successful or failed.
\<close>

theorem handles_released:
  "scoped (trace (snd (run fs pk))) \<and> open_handles (trace (snd (run fs pk))) = []"
proof (cases fs rule: run_cases)
  case readme_absent
  then show ?thesis by (simp add: run_readme_absent open_handles_def)
next
  case readme_undecodable
  then show ?thesis by (simp add: run_readme_undecodable open_handles_def)
next
  case (license_absent r)
  then show ?thesis by (simp add: run_license_absent open_handles_def)
next
  case (license_undecodable r)
  then show ?thesis by (simp add: run_license_undecodable open_handles_def)
next
  case (both_text r l)
  then show ?thesis by (simp add: run_both_text open_handles_def)
qed

theorem handles_released_witness:
  "trace (snd (run fs_undecodable_license [])) =
     [OpenOk ''README.md'', ReadOk ''README.md'' ''# ESL'', Close ''README.md'',
      OpenOk ''LICENSE'', ReadFailed ''LICENSE'', Close ''LICENSE''] \<and>
   scoped (trace (snd (run fs_undecodable_license []))) \<and>
   open_handles (trace (snd (run fs_undecodable_license []))) = []"
  using handles_released [of fs_undecodable_license "[]"]
    run_license_undecodable [OF fs_undecodable_license_files, of "[]"]
  by simp

text \<open>
  C8. Any two runs that reach \<^verbatim>\<open>setup\<close>, on any two filesystems and with any two
  results of \<^verbatim>\<open>find_packages\<close>, pass the same value in every field other than
  \<^verbatim>\<open>long_description\<close> and \<^verbatim>\<open>packages\<close>.
\<close>

theorem constant_fields:
  assumes "fst (run fs1 pk1) = Inr d1" and "fst (run fs2 pk2) = Inr d2"
  shows "name d1 = name d2 \<and> version d1 = version d2 \<and> author d1 = author d2 \<and>
    author_email d1 = author_email d2 \<and> description d1 = description d2 \<and>
    long_description_content_type d1 = long_description_content_type d2 \<and>
    url d1 = url d2 \<and> install_requires d1 = install_requires d2 \<and>
    license d1 = license d2 \<and> classifiers d1 = classifiers d2 \<and>
    python_requires d1 = python_requires d2"
proof -
  from assms(1) obtain l1 where d1: "d1 = setup_args l1 pk1"
    by (rule run_Inr)
  from assms(2) obtain l2 where d2: "d2 = setup_args l2 pk2"
    by (rule run_Inr)
  show ?thesis
    unfolding d1 d2 setup_args_def by simp
qed

theorem constant_fields_witness:
  "fst (run fs_both []) = Inr (setup_args ''MIT License'' []) \<and>
   fst (run fs_other_readme [''esl'']) = Inr (setup_args ''Apache License'' [''esl'']) \<and>
   long_description (setup_args ''MIT License'' []) \<noteq>
     long_description (setup_args ''Apache License'' [''esl'']) \<and>
   name (setup_args ''MIT License'' []) = name (setup_args ''Apache License'' [''esl'']) \<and>
   install_requires (setup_args ''MIT License'' []) =
     install_requires (setup_args ''Apache License'' [''esl'']) \<and>
   classifiers (setup_args ''MIT License'' []) =
     classifiers (setup_args ''Apache License'' [''esl''])"
proof -
  have ld: "long_description (setup_args ''MIT License'' []) \<noteq>
      long_description (setup_args ''Apache License'' [''esl''])"
    by (simp add: setup_args_def)
  from constant_fields [OF run_fs_both run_fs_other_readme, of "[]" "[''esl'']"]
    run_fs_both [of "[]"] run_fs_other_readme [of "[''esl'']"] ld
  show ?thesis by blast
qed

text \<open>
  C9. The \<^verbatim>\<open>install_requires\<close> that reaches \<^verbatim>\<open>setup\<close> has exactly the eight entries
  of the source, in its order; the first seven carry the operator \<^verbatim>\<open>>=\<close> and only the
  last one, pandas, carries \<^verbatim>\<open>==\<close>; no entry names \<^verbatim>\<open>ml-datasets\<close>.
\<close>

theorem install_requires_exact:
  assumes "fst (run fs pk) = Inr d"
  shows "install_requires d =
      [''numpy>=1.19.0'', ''matplotlib>=3.2.2'', ''scipy>=1.5.1'', ''tqdm>=4.47.0'',
       ''flake8>=3.8.3'', ''black>=19.10b0'', ''scikit-learn>=0.23.1'', ''pandas==1.1.0''] \<and>
    length (install_requires d) = 8 \<and>
    map requirement_operator (install_requires d) =
      [''>='', ''>='', ''>='', ''>='', ''>='', ''>='', ''>='', ''==''] \<and>
    filter names_ml_datasets (install_requires d) = []"
proof -
  from assms obtain l where d: "d = setup_args l pk"
    by (rule run_Inr)
  have entries: "install_requires d =
      [''numpy>=1.19.0'', ''matplotlib>=3.2.2'', ''scipy>=1.5.1'', ''tqdm>=4.47.0'',
       ''flake8>=3.8.3'', ''black>=19.10b0'', ''scikit-learn>=0.23.1'', ''pandas==1.1.0'']"
    unfolding d by (rule install_requires_setup_args)
  have len: "length (install_requires d) = 8"
    unfolding entries by simp
  have ops: "map requirement_operator (install_requires d) =
      [''>='', ''>='', ''>='', ''>='', ''>='', ''>='', ''>='', ''=='']"
    unfolding entries by (simp only: list.map operator_entries)
  have ml: "filter names_ml_datasets (install_requires d) = []"
    unfolding entries by (simp only: filter.simps ml_datasets_entries if_False)
  from entries len ops ml show ?thesis by blast
qed

theorem install_requires_exact_witness:
  "fst (run fs_with_package [''esl'']) = Inr (setup_args ''MIT License'' [''esl'']) \<and>
   length (install_requires (setup_args ''MIT License'' [''esl''])) = 8 \<and>
   map requirement_operator (install_requires (setup_args ''MIT License'' [''esl''])) =
     [''>='', ''>='', ''>='', ''>='', ''>='', ''>='', ''>='', ''==''] \<and>
   filter names_ml_datasets (install_requires (setup_args ''MIT License'' [''esl''])) = []"
proof -
  have r: "fst (run fs_with_package [''esl'']) = Inr (setup_args ''MIT License'' [''esl''])"
    by (simp add: run_both_text [OF fs_with_package_files(1,2)])
  from install_requires_exact [OF r] r show ?thesis by blast
qed




end
